theory Spec2Isabelle
  imports Main
begin

section \<open>CityGuardian: upload, registration and credential handlers\<close>

text \<open>
  The development embeds the route handlers of the repository
  (\<^verbatim>\<open>app/api/upload/route.ts\<close>, \<^verbatim>\<open>app/api/auth/register/route.ts\<close>,
  \<^verbatim>\<open>app/api/auth/[...nextauth]/route.ts\<close> and its later variant) together with the
  user schema of \<^verbatim>\<open>models/User.ts\<close>.  Handlers are functions from the request (and
  the users collection, where they touch it) to the response (and the new collection).
  Everything a handler receives from outside the repository is a field of the record
  \<open>env\<close>: the bcrypt functions, the clock, the Cloudinary uploader, the object-id supply
  and the one Mongoose setting the handlers depend on.

  JavaScript strings are modelled as lists of code units in the range U+0000 to U+00FF
  (the type \<open>string\<close>); \<open>length\<close> is the \<^verbatim>\<open>.length\<close> of such a string.
\<close>

subsection \<open>Strings\<close>

text \<open>Decimal rendering of a number inside a template literal.\<close>

definition digit :: "nat \<Rightarrow> char" where
  "digit d = char_of (48 + d)"

function dec :: "nat \<Rightarrow> string" where
  "dec n = (if n < 10 then [digit n] else dec (n div 10) @ [digit (n mod 10)])"
  by pat_completeness auto
termination
  by (relation "measure id") auto

declare dec.simps [simp del]

text \<open>
  \<^verbatim>\<open>\s\<close> of a regular expression and the characters \<^verbatim>\<open>trim()\<close> strips: tab, line feed,
  vertical tab, form feed, carriage return, space and no-break space (U+00A0) are the
  members of that class below U+0100.
\<close>

definition is_space :: "char \<Rightarrow> bool" where
  "is_space c = ((of_char c :: nat) \<in> {9, 10, 11, 12, 13, 32, 160})"

definition trim :: "string \<Rightarrow> string" where
  "trim s = rev (dropWhile is_space (rev (dropWhile is_space s)))"

text \<open>
  \<^verbatim>\<open>toLowerCase()\<close> on code units below U+0100: A to Z and the Latin-1 capitals
  U+00C0 to U+00DE (the multiplication sign U+00D7 apart) move up by 32.
\<close>

definition lower_char :: "char \<Rightarrow> char" where
  "lower_char c =
     (let n = (of_char c :: nat)
      in if (65 \<le> n \<and> n \<le> 90) \<or> (192 \<le> n \<and> n \<le> 222 \<and> n \<noteq> 215)
         then char_of (n + 32) else c)"

definition toLowerCase :: "string \<Rightarrow> string" where
  "toLowerCase s = map lower_char s"

text \<open>Equality of two strings up to the case of the ASCII letters.\<close>

definition ascii_lower_char :: "char \<Rightarrow> char" where
  "ascii_lower_char c =
     (let n = (of_char c :: nat)
      in if 65 \<le> n \<and> n \<le> 90 then char_of (n + 32) else c)"

definition eq_ascii_case :: "string \<Rightarrow> string \<Rightarrow> bool" where
  "eq_ascii_case a b = (map ascii_lower_char a = map ascii_lower_char b)"

text \<open>JavaScript truthiness of a value that is a string or absent.\<close>

definition falsy :: "string option \<Rightarrow> bool" where
  "falsy v = (case v of None \<Rightarrow> True | Some s \<Rightarrow> s = [])"

subsection \<open>The environment\<close>

record upload_file =
  f_name :: string
  f_type :: string
  f_size :: nat

record media_handle =
  url :: "string option"
  publicId :: "string option"
  width :: "nat option"
  height :: "nat option"
  format :: "string option"
  bytes :: "nat option"

record env =
  bcrypt_hash :: "nat \<Rightarrow> string \<Rightarrow> string"
  bcrypt_compare :: "string \<Rightarrow> string \<Rightarrow> bool"
  date_now :: nat
  new_object_id :: string
  upload_stream :: "upload_file \<Rightarrow> string + media_handle"
  run_setters_on_query :: bool

text \<open>
  \<open>bcrypt_hash r p\<close> is \<^verbatim>\<open>bcrypt.hash(p, r)\<close> (the salt drawn by the library is part of
  the environment), \<open>bcrypt_compare c h\<close> is \<^verbatim>\<open>bcrypt.compare(c, h)\<close>, \<open>date_now\<close> is
  \<^verbatim>\<open>Date.now()\<close>, \<open>new_object_id\<close> the \<^verbatim>\<open>_id\<close> Mongoose gives a new document,
  \<open>upload_stream f\<close> the outcome of the Cloudinary upload of \<open>f\<close> (\<open>Inl\<close> the error the
  callback receives).  \<open>run_setters_on_query\<close> says whether Mongoose passes the values of
  a query filter through the setters of the schema path (it does from version 5 on;
  version 4 had it as an option, off by default).
\<close>

text \<open>
  The session \<^verbatim>\<open>getServerSession\<close> and \<^verbatim>\<open>useSession\<close> give: the user part that the
  \<^verbatim>\<open>jwt\<close> and \<^verbatim>\<open>session\<close> callbacks fill in.  \<open>None\<close> is the absent session.
\<close>

record session =
  s_id :: string
  s_role :: string
  s_email :: string
  s_name :: string

subsection \<open>Media intake: \<^verbatim>\<open>app/api/upload/route.ts\<close>\<close>

datatype upload_response =
  UploadError nat string
| UploadOk "media_handle list" string

fun upload_status :: "upload_response \<Rightarrow> nat" where
  "upload_status (UploadError st msg) = st"
| "upload_status (UploadOk hs msg) = 200"

fun upload_images :: "upload_response \<Rightarrow> media_handle list" where
  "upload_images (UploadError st msg) = []"
| "upload_images (UploadOk hs msg) = hs"

definition allowedTypes :: "string list" where
  "allowedTypes = [''image/jpeg'', ''image/jpg'', ''image/png'', ''image/webp'']"

definition maxSize :: nat where
  "maxSize = 10 * 1024 * 1024"

text \<open>The validation loop of \<^verbatim>\<open>POST\<close>: the first offending file decides the answer.\<close>

fun validate_files :: "upload_file list \<Rightarrow> string option" where
  "validate_files [] = None"
| "validate_files (f # fs) =
     (if f_type f \<notin> set allowedTypes
      then Some (''Invalid file type: '' @ f_type f @ ''. Only JPEG, PNG, and WebP are allowed.'')
      else if f_size f > maxSize
      then Some (''File too large: '' @ f_name f @ ''. Maximum size is 10MB.'')
      else validate_files fs)"

text \<open>
  \<^verbatim>\<open>Promise.all\<close> over the uploads: the handles in the order of the files, or the first
  rejection.
\<close>

fun promise_all :: "(string + media_handle) list \<Rightarrow> string + media_handle list" where
  "promise_all [] = Inr []"
| "promise_all (Inl e # rs) = Inl e"
| "promise_all (Inr h # rs) =
     (case promise_all rs of Inl e \<Rightarrow> Inl e | Inr hs \<Rightarrow> Inr (h # hs))"

text \<open>
  \<^verbatim>\<open>POST\<close> returns its response together with the files it handed to Cloudinary:
  \<^verbatim>\<open>files.map\<close> starts every upload before \<^verbatim>\<open>Promise.all\<close> waits for them.  The
  \<^verbatim>\<open>details\<close> key of the 500 answer is left out.
\<close>

definition POST_upload :: "env \<Rightarrow> session option \<Rightarrow> upload_file list \<Rightarrow> upload_response \<times> upload_file list" where
  "POST_upload E sess files =
     (case sess of
        None \<Rightarrow> (UploadError 401 ''Unauthorized'', [])
      | Some s \<Rightarrow>
          if length files = 0 then (UploadError 400 ''No files uploaded'', [])
          else (case validate_files files of
                  Some msg \<Rightarrow> (UploadError 400 msg, [])
                | None \<Rightarrow>
                    (case promise_all (map (upload_stream E) files) of
                       Inl e \<Rightarrow> (UploadError 500 ''Failed to upload images'', files)
                     | Inr uploadResults \<Rightarrow>
                         (UploadOk uploadResults
                            (dec (length uploadResults) @ '' image(s) uploaded successfully''),
                          files))))"

text \<open>\<^verbatim>\<open>images.map((base64Image, index) => ...)\<close> of \<^verbatim>\<open>PUT\<close>.\<close>

fun process_images :: "env \<Rightarrow> nat \<Rightarrow> string list \<Rightarrow> media_handle list" where
  "process_images E index [] = []"
| "process_images E index (base64Image # rest) =
     \<lparr> url = Some base64Image,
       publicId = Some (''complaint_'' @ dec (date_now E) @ ''_'' @ dec index),
       width = None,
       height = None,
       format = Some ''base64'',
       bytes = Some (length base64Image) \<rparr>
     # process_images E (Suc index) rest"

text \<open>
  The body of \<^verbatim>\<open>PUT\<close> is \<^verbatim>\<open>{images}\<close>; \<open>None\<close> stands for a missing \<^verbatim>\<open>images\<close> or one
  that is no array, \<open>Some xs\<close> for an array of strings.
\<close>

definition PUT_upload :: "env \<Rightarrow> session option \<Rightarrow> string list option \<Rightarrow> upload_response" where
  "PUT_upload E sess images =
     (case sess of
        None \<Rightarrow> UploadError 401 ''Unauthorized''
      | Some s \<Rightarrow>
          (case images of
             None \<Rightarrow> UploadError 400 ''Invalid images data''
           | Some imgs \<Rightarrow>
               (let processedImages = process_images E 0 imgs
                in UploadOk processedImages
                     (dec (length processedImages) @ '' image(s) processed successfully''))))"

subsection \<open>Identity store: \<^verbatim>\<open>models/User.ts\<close>\<close>

text \<open>
  A document of the users collection has the paths of \<^verbatim>\<open>userSchema\<close> and no others.
  The four required paths are optional here, because a document exists before it is
  validated.
\<close>

record user_doc =
  u_id :: string
  u_name :: "string option"
  u_email :: "string option"
  u_password :: "string option"
  u_mobile :: "string option"
  u_role :: string
  u_avatar :: "(string \<times> string) option"
  u_complaints :: "string list"
  u_createdAt :: nat

text \<open>
  The object literal handed to \<^verbatim>\<open>new User({...})\<close>, with every key some caller in the
  repository writes: the seeding scripts pass \<^verbatim>\<open>name, email, password, mobile, role\<close>,
  the registration handler passes
  \<^verbatim>\<open>name, email, password, phone, address, city, role, isActive, joinedAt\<close>.
\<close>

record user_input =
  i_name :: "string option"
  i_email :: "string option"
  i_password :: "string option"
  i_mobile :: "string option"
  i_phone :: "string option"
  i_address :: "string option"
  i_city :: "string option"
  i_role :: "string option"
  i_isActive :: "bool option"
  i_joinedAt :: "nat option"

text \<open>
  \<^verbatim>\<open>new User(obj)\<close>: the schema is strict (the Mongoose default, the schema sets no
  option), so only keys that are schema paths are copied; \<^verbatim>\<open>lowercase: true\<close> is a
  setter on \<^verbatim>\<open>email\<close>; \<^verbatim>\<open>role\<close> and \<^verbatim>\<open>createdAt\<close> take their defaults when absent.
\<close>

definition new_User :: "env \<Rightarrow> user_input \<Rightarrow> user_doc" where
  "new_User E obj =
     \<lparr> u_id = new_object_id E,
       u_name = i_name obj,
       u_email = map_option toLowerCase (i_email obj),
       u_password = i_password obj,
       u_mobile = i_mobile obj,
       u_role = (case i_role obj of None \<Rightarrow> ''citizen'' | Some r \<Rightarrow> r),
       u_avatar = None,
       u_complaints = [],
       u_createdAt = date_now E \<rparr>"

datatype save_error =
  ValidationError "string list"
| DuplicateKeyError

text \<open>
  The validators of the schema, run by \<^verbatim>\<open>save()\<close> before any \<^verbatim>\<open>pre('save')\<close> hook:
  \<^verbatim>\<open>required: true\<close> on a string path rejects an absent and an empty value,
  \<^verbatim>\<open>enum\<close> rejects a role outside the list.  The result lists the failing paths.
\<close>

definition role_enum :: "string list" where
  "role_enum = [''citizen'', ''employee'', ''admin'']"

definition validate_user :: "user_doc \<Rightarrow> string list" where
  "validate_user u =
     (if falsy (u_name u) then [''name''] else []) @
     (if falsy (u_email u) then [''email''] else []) @
     (if falsy (u_password u) then [''password''] else []) @
     (if falsy (u_mobile u) then [''mobile''] else []) @
     (if u_role u \<notin> set role_enum then [''role''] else [])"

text \<open>
  The hook \<^verbatim>\<open>userSchema.pre('save', ...)\<close> on a new document, whose password counts as
  modified: the password is replaced by its bcrypt hash with a salt of cost 10.
\<close>

definition pre_save :: "env \<Rightarrow> user_doc \<Rightarrow> user_doc" where
  "pre_save E u = u\<lparr>u_password := map_option (bcrypt_hash E 10) (u_password u)\<rparr>"

text \<open>
  \<^verbatim>\<open>user.save()\<close> of a new document: validation, the hook, then the insert, which the
  unique index on \<^verbatim>\<open>email\<close> refuses when a document with that email is stored.  It
  returns the document as the hook left it and the new collection.
\<close>

definition save :: "env \<Rightarrow> user_doc \<Rightarrow> user_doc list \<Rightarrow> save_error + user_doc \<times> user_doc list" where
  "save E u users =
     (if validate_user u \<noteq> [] then Inl (ValidationError (validate_user u))
      else (let u' = pre_save E u
            in if \<exists>d \<in> set users. u_email d = u_email u' then Inl DuplicateKeyError
               else Inr (u', users @ [u'])))"

text \<open>
  \<^verbatim>\<open>error.message.includes('duplicate key')\<close>: the message of the driver's error of a
  unique index is \<^verbatim>\<open>E11000 duplicate key error ...\<close>, that of a validation error is
  \<^verbatim>\<open>User validation failed: ...\<close> followed by the failing paths.
\<close>

fun message_includes_duplicate_key :: "save_error \<Rightarrow> bool" where
  "message_includes_duplicate_key DuplicateKeyError = True"
| "message_includes_duplicate_key (ValidationError ps) = False"

text \<open>
  \<^verbatim>\<open>User.findOne({ email: e })\<close>.  The filter is cast through the schema path, which
  applies the \<^verbatim>\<open>lowercase\<close> setter when Mongoose runs setters on queries.  The default
  projection leaves out \<^verbatim>\<open>password\<close> (\<^verbatim>\<open>select: false\<close>); \<^verbatim>\<open>.select('+password')\<close>
  brings it back.
\<close>

definition cast_email :: "env \<Rightarrow> string \<Rightarrow> string" where
  "cast_email E e = (if run_setters_on_query E then toLowerCase e else e)"

definition findOne_select_password :: "env \<Rightarrow> user_doc list \<Rightarrow> string \<Rightarrow> user_doc option" where
  "findOne_select_password E users e = find (\<lambda>d. u_email d = Some (cast_email E e)) users"

definition findOne :: "env \<Rightarrow> user_doc list \<Rightarrow> string \<Rightarrow> user_doc option" where
  "findOne E users e =
     map_option (\<lambda>d. d\<lparr>u_password := None\<rparr>) (findOne_select_password E users e)"

text \<open>
  \<^verbatim>\<open>userSchema.methods.comparePassword\<close>; \<^verbatim>\<open>bcrypt.compare\<close> throws when the stored hash
  is not a string.
\<close>

definition comparePassword :: "env \<Rightarrow> user_doc \<Rightarrow> string \<Rightarrow> string + bool" where
  "comparePassword E u candidatePassword =
     (case u_password u of
        None \<Rightarrow> Inl ''Illegal arguments: string, undefined''
      | Some h \<Rightarrow> Inr (bcrypt_compare E candidatePassword h))"

subsection \<open>Registration: \<^verbatim>\<open>app/api/auth/register/route.ts\<close>\<close>

text \<open>
  The JSON body of the request.  A field is a string or absent; \<open>None\<close> also stands for
  \<^verbatim>\<open>null\<close>, which the handler treats the same way.
\<close>

record register_request =
  r_name :: "string option"
  r_email :: "string option"
  r_password :: "string option"
  r_phone :: "string option"
  r_address :: "string option"
  r_city :: "string option"
  r_role :: "string option"

text \<open>
  The regular expression \<^verbatim>\<open>/^[^\s@]+@[^\s@]+\.[^\s@]+$/\<close>: the string splits at some
  \<^verbatim>\<open>@\<close> in position \<open>i\<close> and some later dot in position \<open>j\<close> into three non-empty
  pieces free of white space and \<^verbatim>\<open>@\<close>.
\<close>

definition piece_ok :: "string \<Rightarrow> bool" where
  "piece_ok p = (p \<noteq> [] \<and> list_all (\<lambda>c. \<not> is_space c \<and> c \<noteq> CHR ''@'') p)"

definition emailRegex_test :: "string \<Rightarrow> bool" where
  "emailRegex_test s =
     list_ex (\<lambda>i. list_ex (\<lambda>j.
        i < j \<and> s ! i = CHR ''@'' \<and> s ! j = CHR ''.'' \<and>
        piece_ok (take i s) \<and> piece_ok (take (j - Suc i) (drop (Suc i) s)) \<and>
        piece_ok (drop (Suc j) s)) [0..<length s]) [0..<length s]"

definition validRoles :: "string list" where
  "validRoles = [''citizen'', ''employee'', ''admin'']"

datatype register_response =
  RegisterError nat string
| RegisterCreated string "(string \<times> string option) list"


text \<open>
  The checks the handler makes before it touches the database; \<open>Some\<close> is the message
  of the 400 answer.
\<close>

definition validate_request :: "register_request \<Rightarrow> string option" where
  "validate_request rq =
     (if falsy (r_name rq) \<or> falsy (r_email rq) \<or> falsy (r_password rq) \<or>
         falsy (r_phone rq) \<or> falsy (r_address rq) \<or> falsy (r_city rq)
      then Some ''All fields are required''
      else if \<not> emailRegex_test (the (r_email rq))
      then Some ''Invalid email format''
      else if length (the (r_password rq)) < 6
      then Some ''Password must be at least 6 characters long''
      else if \<not> falsy (r_role rq) \<and> the (r_role rq) \<notin> set validRoles
      then Some ''Invalid role specified''
      else None)"

text \<open>The object literal of \<^verbatim>\<open>new User({...})\<close> in the handler (lines 60 to 70).\<close>

definition user_literal :: "env \<Rightarrow> register_request \<Rightarrow> user_input" where
  "user_literal E rq =
     \<lparr> i_name = Some (trim (the (r_name rq))),
       i_email = Some (trim (toLowerCase (the (r_email rq)))),
       i_password = Some (bcrypt_hash E 12 (the (r_password rq))),
       i_mobile = None,
       i_phone = Some (trim (the (r_phone rq))),
       i_address = Some (trim (the (r_address rq))),
       i_city = Some (trim (the (r_city rq))),
       i_role = Some (if falsy (r_role rq) then ''citizen'' else the (r_role rq)),
       i_isActive = Some True,
       i_joinedAt = Some (date_now E) \<rparr>"

text \<open>
  \<^verbatim>\<open>userResponse\<close> (lines 77 to 86), key by key.  \<^verbatim>\<open>phone\<close>, \<^verbatim>\<open>address\<close>, \<^verbatim>\<open>city\<close> and
  \<^verbatim>\<open>joinedAt\<close> are no paths of the schema, so reading them from the document gives
  \<^verbatim>\<open>undefined\<close> (\<open>None\<close>).
\<close>

definition userResponse :: "user_doc \<Rightarrow> (string \<times> string option) list" where
  "userResponse user =
     [(''id'', Some (u_id user)),
      (''name'', u_name user),
      (''email'', u_email user),
      (''phone'', None),
      (''address'', None),
      (''city'', None),
      (''role'', Some (u_role user)),
      (''joinedAt'', None)]"

text \<open>
  The handler.  \<open>the\<close> is applied to a field only after the handler has found it truthy.
  The \<^verbatim>\<open>catch\<close> block turns a failure of \<^verbatim>\<open>save()\<close> into 409 or 500.
\<close>

definition register :: "env \<Rightarrow> user_doc list \<Rightarrow> register_request \<Rightarrow> register_response \<times> user_doc list" where
  "register E users rq =
     (case validate_request rq of
        Some msg \<Rightarrow> (RegisterError 400 msg, users)
      | None \<Rightarrow>
          (case findOne E users (toLowerCase (the (r_email rq))) of
             Some existingUser \<Rightarrow> (RegisterError 409 ''User with this email already exists'', users)
           | None \<Rightarrow>
               (let user = new_User E (user_literal E rq)
                in case save E user users of
                     Inr (user', users') \<Rightarrow>
                       (RegisterCreated ''User registered successfully'' (userResponse user'),
                        users')
                   | Inl err \<Rightarrow>
                       (if message_includes_duplicate_key err
                        then (RegisterError 409 ''User with this email already exists'', users)
                        else (RegisterError 500 ''Internal server error during registration'', users)))))"


text \<open>
  \<^verbatim>\<open>User.create(obj)\<close>, as the seeding scripts call it: construct and save.
\<close>

definition User_create :: "env \<Rightarrow> user_input \<Rightarrow> user_doc list \<Rightarrow> save_error + user_doc \<times> user_doc list" where
  "User_create E obj users = save E (new_User E obj) users"

subsection \<open>Credential verifier: \<^verbatim>\<open>app/api/auth/[...nextauth]/route.ts\<close>\<close>

record credentials =
  c_email :: "string option"
  c_password :: "string option"

record auth_user =
  a_id :: string
  a_email :: "string option"
  a_name :: "string option"
  a_role :: string

text \<open>\<^verbatim>\<open>credentials?.email\<close> and \<^verbatim>\<open>credentials?.password\<close>.\<close>

definition cred_email :: "credentials option \<Rightarrow> string option" where
  "cred_email cr = (case cr of None \<Rightarrow> None | Some c \<Rightarrow> c_email c)"

definition cred_password :: "credentials option \<Rightarrow> string option" where
  "cred_password cr = (case cr of None \<Rightarrow> None | Some c \<Rightarrow> c_password c)"

text \<open>
  \<^verbatim>\<open>authorize\<close> of the route file: \<open>Inl m\<close> is \<^verbatim>\<open>throw new Error(m)\<close>, which leaves
  the function and reaches its caller.
\<close>

definition authorize :: "env \<Rightarrow> user_doc list \<Rightarrow> credentials option \<Rightarrow> string + auth_user" where
  "authorize E users cr =
     (if falsy (cred_email cr) \<or> falsy (cred_password cr) then Inl ''Invalid credentials''
      else (case findOne_select_password E users (the (cred_email cr)) of
              None \<Rightarrow> Inl ''No user found''
            | Some user \<Rightarrow>
                (case comparePassword E user (the (cred_password cr)) of
                   Inl e \<Rightarrow> Inl e
                 | Inr isValid \<Rightarrow>
                     if \<not> isValid then Inl ''Invalid password''
                     else Inr \<lparr> a_id = u_id user, a_email = u_email user,
                                a_name = u_name user, a_role = u_role user \<rparr>)))"

text \<open>
  The later variant of the same route (both copies of it): the body of \<^verbatim>\<open>authorize\<close>
  sits in \<^verbatim>\<open>try\<close>, the returned user has an \<^verbatim>\<open>image\<close>, and
  \<^verbatim>\<open>catch (error) { console.error('Auth error:', error); return null; }\<close> ends every
  failure.  The function returns what the caller gets (\<open>None\<close> is \<^verbatim>\<open>null\<close>) and the
  calls of \<^verbatim>\<open>console.error\<close> it made.  Such a call is recorded by its two arguments:
  the label and the \<^verbatim>\<open>Error\<close> object, the latter given by its message.  How the console
  renders the object (the prefix \<^verbatim>\<open>Error:\<close>, the stack) is not modelled.
\<close>

datatype console_entry = ConsoleError string string

record auth_user_image = auth_user +
  a_image :: "string option"

definition authorize_try :: "env \<Rightarrow> user_doc list \<Rightarrow> credentials option \<Rightarrow> string + auth_user_image" where
  "authorize_try E users cr =
     (if falsy (cred_email cr) \<or> falsy (cred_password cr) then Inl ''Invalid credentials''
      else (case findOne_select_password E users (the (cred_email cr)) of
              None \<Rightarrow> Inl ''No user found''
            | Some user \<Rightarrow>
                (case comparePassword E user (the (cred_password cr)) of
                   Inl e \<Rightarrow> Inl e
                 | Inr isValid \<Rightarrow>
                     if \<not> isValid then Inl ''Invalid password''
                     else Inr \<lparr> a_id = u_id user, a_email = u_email user,
                                a_name = u_name user, a_role = u_role user,
                                a_image = (case u_avatar user of
                                             None \<Rightarrow> None
                                           | Some (avatar_url, avatar_id) \<Rightarrow>
                                               if avatar_url = [] then None else Some avatar_url) \<rparr>)))"

definition authorize_catch ::
  "env \<Rightarrow> user_doc list \<Rightarrow> credentials option \<Rightarrow> auth_user_image option \<times> console_entry list" where
  "authorize_catch E users cr =
     (case authorize_try E users cr of
        Inl e \<Rightarrow> (None, [ConsoleError ''Auth error:'' e])
      | Inr u \<Rightarrow> (Some u, []))"

subsection \<open>Complaint submission\<close>

text \<open>
  The form of \<^verbatim>\<open>components/issue-form.tsx\<close>: its state, the images staged by the upload
  component, and the JSON body \<^verbatim>\<open>{...formData, images: uploadedImages}\<close> that
  \<^verbatim>\<open>handleSubmit\<close> posts to \<^verbatim>\<open>/api/complaints\<close>.
\<close>

record image_ref =
  img_url :: string
  img_publicId :: string

record form_data =
  fd_title :: string
  fd_type :: string
  fd_description :: string
  fd_address :: string
  fd_coordinates :: "int \<times> int"
  fd_priority :: string
  fd_mobile :: string
  fd_email :: string

record complaint_payload = form_data +
  p_images :: "image_ref list"

definition payload_of :: "form_data \<Rightarrow> image_ref list \<Rightarrow> complaint_payload" where
  "payload_of formData uploadedImages = form_data.extend formData \<lparr>p_images = uploadedImages\<rparr>"

definition initial_form :: "session option \<Rightarrow> form_data" where
  "initial_form sess =
     \<lparr> fd_title = [], fd_type = [], fd_description = [], fd_address = [],
       fd_coordinates = (0, 0), fd_priority = ''medium'', fd_mobile = [],
       fd_email = (case sess of None \<Rightarrow> [] | Some s \<Rightarrow> s_email s) \<rparr>"

text \<open>
  \<open>fetch body\<close> is what the request brought back: \<^verbatim>\<open>response.ok\<close> and \<^verbatim>\<open>data.error\<close>,
  or \<open>None\<close> when \<^verbatim>\<open>fetch\<close> or \<^verbatim>\<open>response.json()\<close> threw.  \<^verbatim>\<open>handleSubmit\<close> returns the
  toast it shows, the request it sent (if any) and the new state of the form and of the
  staged images.
\<close>

datatype toast = ToastError string | ToastSuccess string

definition handleSubmit ::
  "session option \<Rightarrow> form_data \<Rightarrow> image_ref list
     \<Rightarrow> (complaint_payload \<Rightarrow> (bool \<times> string option) option)
     \<Rightarrow> toast \<times> complaint_payload option \<times> form_data \<times> image_ref list" where
  "handleSubmit sess formData uploadedImages fetch =
     (case sess of
        None \<Rightarrow> (ToastError ''Please login to submit a complaint'', None, formData, uploadedImages)
      | Some s \<Rightarrow>
          if fd_type formData = [] \<or> fd_title formData = [] \<or> fd_description formData = [] \<or>
             fd_address formData = [] \<or> fd_mobile formData = []
          then (ToastError ''Please fill in all required fields'', None, formData, uploadedImages)
          else (let body = payload_of formData uploadedImages
                in case fetch body of
                     None \<Rightarrow>
                       (ToastError ''An error occurred while submitting the complaint'',
                        Some body, formData, uploadedImages)
                   | Some (ok, err) \<Rightarrow>
                       if ok
                       then (ToastSuccess ''Complaint submitted successfully!'', Some body,
                             initial_form sess, [])
                       else (ToastError (if falsy err then ''Failed to submit complaint'' else the err),
                             Some body, formData, uploadedImages)))"

text \<open>
  The draft as the server receives it: a JSON body that may carry more keys than the
  form sends, among them a \<^verbatim>\<open>status\<close> and an \<^verbatim>\<open>author\<close> of the client's choosing.
\<close>

record complaint_draft = complaint_payload +
  d_status :: "string option"
  d_author :: "string option"

definition draft_of :: "complaint_payload \<Rightarrow> complaint_draft" where
  "draft_of body = complaint_payload.extend body \<lparr>d_status = None, d_author = None\<rparr>"

text \<open>
  Modelled from the spec: the complaint record of section 3 of the specification (the
  Complaint model is not among the sources), with the fields \<^verbatim>\<open>submit\<close> fills.
\<close>

record complaint =
  k_title :: string
  k_category :: string
  k_description :: string
  k_address :: string
  k_coordinates :: "int \<times> int"
  k_priority :: string
  k_mobile :: string
  k_email :: string
  k_images :: "image_ref list"
  k_status :: string
  k_author :: string

datatype submit_error = Unauthenticated | SubmitValidationError

text \<open>
  Modelled from the spec: the handler of \<^verbatim>\<open>POST /api/complaints\<close> and the complaint
  model are not among the sources; only the form that calls the endpoint and the scripts
  that seed complaints are.  The specification (sections 4.5 and 8) gives \<^verbatim>\<open>submit\<close>
  as: it requires an active session; it requires non-empty title, category, description,
  address and contact mobile; it persists the complaint with the author set to the
  session's user id, the status \<^verbatim>\<open>pending\<close> whatever the draft carries, and the priority
  \<^verbatim>\<open>medium\<close> unless the draft overrides it.
\<close>

definition submit ::
  "session option \<Rightarrow> complaint_draft \<Rightarrow> complaint list \<Rightarrow> submit_error + complaint \<times> complaint list" where
  "submit sess draft complaints =
     (case sess of
        None \<Rightarrow> Inl Unauthenticated
      | Some s \<Rightarrow>
          if fd_title draft = [] \<or> fd_type draft = [] \<or> fd_description draft = [] \<or>
             fd_address draft = [] \<or> fd_mobile draft = []
          then Inl SubmitValidationError
          else (let c = \<lparr> k_title = fd_title draft,
                           k_category = fd_type draft,
                           k_description = fd_description draft,
                           k_address = fd_address draft,
                           k_coordinates = fd_coordinates draft,
                           k_priority = (if fd_priority draft = [] then ''medium'' else fd_priority draft),
                           k_mobile = fd_mobile draft,
                           k_email = fd_email draft,
                           k_images = p_images draft,
                           k_status = ''pending'',
                           k_author = s_id s \<rparr>
                in Inr (c, complaints @ [c])))"

subsection \<open>A concrete environment and concrete data\<close>

text \<open>
  The instances below are evaluated against one environment: an uploader that accepts
  every file, a stand-in for bcrypt that prefixes the plain text with the cost, and a
  Mongoose that runs setters on queries.
\<close>

definition sample_env :: env where
  "sample_env =
     \<lparr> bcrypt_hash = (\<lambda>r p. ''$2a$'' @ dec r @ ''$'' @ p),
       bcrypt_compare = (\<lambda>c h. h = ''$2a$10$'' @ c \<or> h = ''$2a$12$'' @ c),
       date_now = 1700000000000,
       new_object_id = ''65f0c0ffee'',
       upload_stream = (\<lambda>f. Inr \<lparr> url = Some (''https://res.cloudinary.com/'' @ f_name f),
                                     publicId = Some (''cityguardian/complaints/'' @ f_name f),
                                     width = Some 1200, height = Some 800,
                                     format = Some ''jpg'', bytes = Some (f_size f) \<rparr>),
       run_setters_on_query = True \<rparr>"

definition sample_session :: session where
  "sample_session = \<lparr> s_id = ''u1'', s_role = ''citizen'', s_email = ''a@x.com'', s_name = ''Alice'' \<rparr>"

definition sample_files :: "upload_file list" where
  "sample_files =
     [\<lparr> f_name = ''kerb.png'', f_type = ''image/png'', f_size = 204800 \<rparr>,
      \<lparr> f_name = ''pothole.jpg'', f_type = ''image/jpeg'', f_size = 12582912 \<rparr>,
      \<lparr> f_name = ''lamp.webp'', f_type = ''image/webp'', f_size = 1024 \<rparr>]"

text \<open>A user as the seeding scripts create it, and the collection that holds it.\<close>

definition seed_input :: user_input where
  "seed_input =
     \<lparr> i_name = Some ''Alice'', i_email = Some ''a@x.com'', i_password = Some ''secret1'',
       i_mobile = Some ''555-1000'', i_phone = None, i_address = None, i_city = None,
       i_role = Some ''citizen'', i_isActive = None, i_joinedAt = None \<rparr>"

definition seeded_users :: "user_doc list" where
  "seeded_users =
     [\<lparr> u_id = ''65f0c0ffee'', u_name = Some ''Alice'', u_email = Some ''a@x.com'',
        u_password = Some ''$2a$10$secret1'', u_mobile = Some ''555-1000'',
        u_role = ''citizen'', u_avatar = None, u_complaints = [],
        u_createdAt = 1700000000000 \<rparr>]"

definition alice_request :: register_request where
  "alice_request =
     \<lparr> r_name = Some ''Alice'', r_email = Some ''A@X.com'', r_password = Some ''secret1'',
       r_phone = Some ''555-1000'', r_address = Some ''1 Main St'',
       r_city = Some ''Springfield'', r_role = None \<rparr>"

text \<open>A draft whose sender names an author and a status of their own.\<close>

definition forged_draft :: complaint_draft where
  "forged_draft =
     \<lparr> fd_title = ''Pothole'', fd_type = ''pothole'', fd_description = ''Deep hole'',
       fd_address = ''1 Main St'', fd_coordinates = (0, 0), fd_priority = ''high'',
       fd_mobile = ''555-1000'', fd_email = ''a@x.com'', p_images = [],
       d_status = Some ''resolved'', d_author = Some ''u999'' \<rparr>"

section \<open>Properties\<close>

subsection \<open>Media intake\<close>

lemma validate_files_too_large:
  "\<exists>f \<in> set files. f_size f > maxSize \<Longrightarrow> \<exists>msg. validate_files files = Some msg"
  by (induction files) auto

lemma length_process_images: "length (process_images E i imgs) = length imgs"
  by (induction imgs arbitrary: i) auto

lemma nth_process_images:
  "k < length imgs \<Longrightarrow>
     url (process_images E i imgs ! k) = Some (imgs ! k) \<and>
     format (process_images E i imgs ! k) = Some ''base64'' \<and>
     bytes (process_images E i imgs ! k) = Some (length (imgs ! k))"
proof (induction imgs arbitrary: i k)
  case Nil
  then show ?case by simp
next
  case (Cons a imgs)
  then show ?case by (cases k) auto
qed

lemma dec_small: "n < 10 \<Longrightarrow> dec n = [digit n]"
  by (subst dec.simps) simp

lemma dec_0: "dec 0 = ''0''"
  by code_simp

text \<open>
  C3.  A batch sent to \<^verbatim>\<open>POST\<close> under a session, in which some file is larger than the
  cap of 10 MB, is answered with status 400: the response carries no handle, and no
  file of the batch, valid or not, was handed to the uploader.
\<close>

theorem post_upload_oversized_batch_rejected:
  assumes "\<exists>f \<in> set files. f_size f > maxSize"
  shows "\<exists>msg. POST_upload E (Some s) files = (UploadError 400 msg, []) \<and>
           upload_status (fst (POST_upload E (Some s) files)) = 400 \<and>
           upload_images (fst (POST_upload E (Some s) files)) = []"
proof -
  from assms obtain msg where m: "validate_files files = Some msg"
    using validate_files_too_large by blast
  from assms have "files \<noteq> []" by auto
  with m have "POST_upload E (Some s) files = (UploadError 400 msg, [])"
    by (simp add: POST_upload_def)
  then show ?thesis by simp
qed

theorem post_upload_oversized_batch_rejected_witness:
  "(\<exists>f \<in> set sample_files. f_size f > maxSize) \<and>
   POST_upload sample_env (Some sample_session) sample_files =
     (UploadError 400 ''File too large: pothole.jpg. Maximum size is 10MB.'', [])"
proof -
  have h: "\<exists>f \<in> set sample_files. f_size f > maxSize"
    by (simp add: sample_files_def maxSize_def)
  have v: "validate_files sample_files = Some ''File too large: pothole.jpg. Maximum size is 10MB.''"
    by (simp add: sample_files_def maxSize_def allowedTypes_def)
  from post_upload_oversized_batch_rejected [OF h, of sample_env sample_session]
  obtain msg where "POST_upload sample_env (Some sample_session) sample_files = (UploadError 400 msg, [])"
    by blast
  moreover have "POST_upload sample_env (Some sample_session) sample_files =
      (UploadError 400 ''File too large: pothole.jpg. Maximum size is 10MB.'', [])"
    using v by (simp add: POST_upload_def sample_files_def)
  ultimately show ?thesis using h by simp
qed

text \<open>
  C5.  Under a session, \<^verbatim>\<open>PUT\<close> answers every array of strings with status 200 and one
  handle for each string.  No string is ever refused, whatever its content or length:
  the handler has no check of type or size to fail.
\<close>

theorem put_upload_accepts_every_array:
  "\<exists>msg. PUT_upload E (Some s) (Some imgs) = UploadOk (process_images E 0 imgs) msg \<and>
         upload_status (PUT_upload E (Some s) (Some imgs)) = 200 \<and>
         length (upload_images (PUT_upload E (Some s) (Some imgs))) = length imgs"
  by (simp add: PUT_upload_def Let_def length_process_images)

theorem put_upload_accepts_every_array_witness:
  "upload_status (PUT_upload sample_env (Some sample_session)
       (Some [''data:text/html;base64,PGI+'', replicate 11000000 CHR ''A''])) = 200 \<and>
   length (upload_images (PUT_upload sample_env (Some sample_session)
       (Some [''data:text/html;base64,PGI+'', replicate 11000000 CHR ''A'']))) = 2"
  using put_upload_accepts_every_array
    [of sample_env sample_session "[''data:text/html;base64,PGI+'', replicate 11000000 CHR ''A'']"]
  by auto

text \<open>
  C9.  Under a session, \<^verbatim>\<open>PUT\<close> answers an array of \<open>N\<close> strings with \<open>N\<close> handles in
  the order of the input: the \<^verbatim>\<open>url\<close> of handle \<open>i\<close> is the \<open>i\<close>-th string as it came,
  its \<^verbatim>\<open>format\<close> is \<^verbatim>\<open>base64\<close>.  The empty array is answered with the empty sequence of
  handles, while \<^verbatim>\<open>POST\<close> answers the empty batch with 400.
\<close>

theorem put_upload_handles_verbatim:
  "upload_status (PUT_upload E (Some s) (Some imgs)) = 200 \<and>
   length (upload_images (PUT_upload E (Some s) (Some imgs))) = length imgs \<and>
   map url (upload_images (PUT_upload E (Some s) (Some imgs))) = map Some imgs \<and>
   map format (upload_images (PUT_upload E (Some s) (Some imgs))) =
     replicate (length imgs) (Some ''base64'') \<and>
   PUT_upload E (Some s) (Some []) = UploadOk [] ''0 image(s) processed successfully'' \<and>
   POST_upload E (Some s) [] = (UploadError 400 ''No files uploaded'', [])"
proof -
  have u: "map url (process_images E i imgs) = map Some imgs" for i
    by (induction imgs arbitrary: i) auto
  have f: "map format (process_images E i imgs) = replicate (length imgs) (Some ''base64'')" for i
    by (induction imgs arbitrary: i) auto
  show ?thesis
    by (simp add: PUT_upload_def POST_upload_def Let_def length_process_images u f dec_0)
qed

theorem put_upload_handles_verbatim_witness:
  "map url (upload_images (PUT_upload sample_env (Some sample_session) (Some [''QUJD'', ''REVG'', ''QUJD'']))) =
     [Some ''QUJD'', Some ''REVG'', Some ''QUJD''] \<and>
   map format (upload_images (PUT_upload sample_env (Some sample_session) (Some [''QUJD'', ''REVG'', ''QUJD'']))) =
     [Some ''base64'', Some ''base64'', Some ''base64'']"
  using put_upload_handles_verbatim [of sample_env sample_session "[''QUJD'', ''REVG'', ''QUJD'']"]
  by (simp add: numeral_3_eq_3)

subsection \<open>Strings\<close>

lemma lower_char_ascii_lower_char: "lower_char (ascii_lower_char c) = lower_char c"
  by (auto simp: lower_char_def ascii_lower_char_def Let_def)

lemma lower_char_idem: "lower_char (lower_char c) = lower_char c"
  by (auto simp: lower_char_def Let_def)

lemma toLowerCase_idem: "toLowerCase (toLowerCase s) = toLowerCase s"
  by (simp add: toLowerCase_def lower_char_idem)

lemma toLowerCase_eq_ascii_case:
  assumes "eq_ascii_case a b"
  shows "toLowerCase a = toLowerCase b"
proof -
  have "toLowerCase x = map lower_char (map ascii_lower_char x)" for x
    by (simp add: toLowerCase_def lower_char_ascii_lower_char)
  then have "toLowerCase a = map lower_char (map ascii_lower_char a)"
    and "toLowerCase b = map lower_char (map ascii_lower_char b)"
    by blast+
  with assms show ?thesis by (simp only: eq_ascii_case_def)
qed

lemma cast_email_toLowerCase: "cast_email E (toLowerCase e) = toLowerCase e"
  by (simp add: cast_email_def toLowerCase_idem)

subsection \<open>Registration\<close>



lemma findOne_stored:
  assumes "d \<in> set users" and "u_email d = Some (cast_email E e)"
  shows "\<exists>d'. findOne E users e = Some d'"
proof -
  have "find (\<lambda>d. u_email d = Some (cast_email E e)) users \<noteq> None"
    using assms by (auto simp: find_None_iff)
  then show ?thesis by (auto simp: findOne_def findOne_select_password_def)
qed


lemma register_collection_unchanged: "snd (register E users rq) = users"
  by (auto simp: register_def save_def validate_user_def new_User_def user_literal_def
           falsy_def Let_def split: option.splits sum.splits)

lemma register_password_hashed_twice:
  "u_password (pre_save E (new_User E (user_literal E rq))) =
     Some (bcrypt_hash E 10 (bcrypt_hash E 12 (the (r_password rq))))"
  by (simp add: pre_save_def new_User_def user_literal_def)



lemma emailRegex_test_sample: "emailRegex_test ''A@X.com''"
  by (simp add: emailRegex_test_def piece_ok_def is_space_def upt_conv_Cons)

lemma emailRegex_test_rejects:
  "\<not> emailRegex_test ''a@b@c.de''" "\<not> emailRegex_test ''a@b.''" "\<not> emailRegex_test ''a@.b''"
  "\<not> emailRegex_test ''a b@x.com''" "\<not> emailRegex_test ''@x.com''" "\<not> emailRegex_test ''ax.com''"
  by (simp_all add: emailRegex_test_def piece_ok_def is_space_def upt_conv_Cons)

lemma alice_request_valid: "validate_request alice_request = None"
  by (simp add: validate_request_def alice_request_def falsy_def emailRegex_test_sample)

lemma toLowerCase_sample: "toLowerCase ''A@X.COM'' = ''a@x.com''"
  and toLowerCase_sample_lower: "toLowerCase ''a@x.com'' = ''a@x.com''"
  and toLowerCase_sample_mixed: "toLowerCase ''A@X.com'' = ''a@x.com''"
  by code_simp+

lemma eq_ascii_case_sample: "eq_ascii_case ''A@X.com'' ''a@x.com''"
  by code_simp

text \<open>
  C2.  When the collection holds a user under the email \<open>e0\<close> (stored in lower case, as
  the schema's setter leaves it), a registration request that is valid in every field
  and whose email equals \<open>e0\<close> up to the case of ASCII letters is answered with status
  409, and the collection is as it was.
\<close>

theorem register_duplicate_email_rejected:
  assumes "d \<in> set users" and "u_email d = Some (toLowerCase e0)"
    and "r_email rq = Some e" and "eq_ascii_case e e0"
    and "validate_request rq = None"
  shows "register E users rq =
           (RegisterError 409 ''User with this email already exists'', users)"
proof -
  have "toLowerCase e = toLowerCase e0"
    using assms(4) by (rule toLowerCase_eq_ascii_case)
  then have "u_email d = Some (cast_email E (toLowerCase e))"
    using assms(2) by (simp add: cast_email_toLowerCase)
  with assms(1) obtain d' where "findOne E users (toLowerCase e) = Some d'"
    using findOne_stored by blast
  with assms(3,5) show ?thesis by (simp add: register_def)
qed

theorem register_duplicate_email_rejected_witness:
  "(\<exists>d \<in> set seeded_users. u_email d = Some (toLowerCase ''a@x.com'')) \<and>
   r_email alice_request = Some ''A@X.com'' \<and> eq_ascii_case ''A@X.com'' ''a@x.com'' \<and>
   validate_request alice_request = None \<and>
   register sample_env seeded_users alice_request =
     (RegisterError 409 ''User with this email already exists'', seeded_users)"
proof -
  have m: "hd seeded_users \<in> set seeded_users" by (simp add: seeded_users_def)
  have s: "u_email (hd seeded_users) = Some (toLowerCase ''a@x.com'')"
    by (simp add: seeded_users_def toLowerCase_sample_lower)
  have r: "r_email alice_request = Some ''A@X.com''" by (simp add: alice_request_def)
  note c = eq_ascii_case_sample
  from register_duplicate_email_rejected [OF m s r c alice_request_valid, of sample_env]
  show ?thesis using m s r c alice_request_valid by blast
qed









lemma dec_10: "dec 10 = ''10''"
  by code_simp

lemma seeded_users_created:
  "User_create sample_env seed_input [] = Inr (hd seeded_users, seeded_users)"
  by (simp add: User_create_def save_def new_User_def validate_user_def pre_save_def falsy_def
        role_enum_def seed_input_def seeded_users_def sample_env_def dec_10
        toLowerCase_sample_lower Let_def)

subsection \<open>Credential verifier\<close>

lemma find_unique:
  assumes "distinct (map f xs)" and "d \<in> set xs" and "f d = k"
  shows "find (\<lambda>x. f x = k) xs = Some d"
  using assms by (induction xs) (auto simp: image_iff)

lemma find_absent:
  assumes "\<forall>x \<in> set xs. f x \<noteq> k"
  shows "find (\<lambda>x. f x = k) xs = None"
  using assms by (simp add: find_None_iff)

lemma findOne_select_password_stored:
  assumes "d \<in> set users" and "distinct (map u_email users)"
    and "u_email d = Some e" and "toLowerCase e = e"
  shows "findOne_select_password E users e = Some d"
proof -
  have "cast_email E e = e" using assms(4) by (simp add: cast_email_def)
  then show ?thesis
    unfolding findOne_select_password_def
    using find_unique [OF assms(2) assms(1), of "Some e"] assms(3) by simp
qed

lemma authorize_try_wrong_password:
  assumes "findOne_select_password E users e = Some d" and "u_password d = Some h"
    and "e \<noteq> []" and "p \<noteq> []" and "\<not> bcrypt_compare E p h"
  shows "authorize E users (Some \<lparr>c_email = Some e, c_password = Some p\<rparr>) = Inl ''Invalid password''"
    and "authorize_try E users (Some \<lparr>c_email = Some e, c_password = Some p\<rparr>) = Inl ''Invalid password''"
  using assms
  by (simp_all add: authorize_def authorize_try_def cred_email_def cred_password_def falsy_def
        comparePassword_def)

lemma authorize_try_no_user:
  assumes "findOne_select_password E users e = None" and "e \<noteq> []" and "p \<noteq> []"
  shows "authorize E users (Some \<lparr>c_email = Some e, c_password = Some p\<rparr>) = Inl ''No user found''"
    and "authorize_try E users (Some \<lparr>c_email = Some e, c_password = Some p\<rparr>) = Inl ''No user found''"
  using assms
  by (simp_all add: authorize_def authorize_try_def cred_email_def cred_password_def falsy_def)

lemma authorize_try_falsy:
  assumes "falsy em \<or> falsy pw"
  shows "authorize E users (Some \<lparr>c_email = em, c_password = pw\<rparr>) = Inl ''Invalid credentials''"
    and "authorize_try E users (Some \<lparr>c_email = em, c_password = pw\<rparr>) = Inl ''Invalid credentials''"
  using assms
  by (auto simp: authorize_def authorize_try_def cred_email_def cred_password_def)

text \<open>
  C6, as the two versions of the route have it.  Take a collection whose emails are
  unique and in lower case, as the schema keeps them, and a user \<open>d\<close> stored in it with
  the non-empty email \<open>e\<close> and the hash \<open>h\<close>.  \<^verbatim>\<open>authorize\<close> of the route file throws
  \<^verbatim>\<open>Invalid password\<close> for \<open>e\<close> with a non-empty password that \<^verbatim>\<open>bcrypt.compare\<close>
  rejects against \<open>h\<close>, and \<^verbatim>\<open>No user found\<close> for a non-empty email that no stored user
  has, with a non-empty password: two different errors reach the caller.  When the email
  or the password is empty or missing, it throws \<^verbatim>\<open>Invalid credentials\<close>, whether the
  email is stored or not.  The later variant hands the same three errors to
  \<^verbatim>\<open>console.error\<close> and returns \<^verbatim>\<open>null\<close> in every one of these cases.
\<close>

theorem authorize_failures:
  assumes "d \<in> set users" and "distinct (map u_email users)"
    and "u_email d = Some e" and "toLowerCase e = e" and "u_password d = Some h"
    and "e \<noteq> []" and "p \<noteq> []" and "\<not> bcrypt_compare E p h"
    and "e' \<noteq> []" and "p' \<noteq> []" and "\<forall>x \<in> set users. u_email x \<noteq> Some (cast_email E e')"
  shows "authorize E users (Some \<lparr>c_email = Some e, c_password = Some p\<rparr>) = Inl ''Invalid password'' \<and>
         authorize E users (Some \<lparr>c_email = Some e', c_password = Some p'\<rparr>) = Inl ''No user found'' \<and>
         authorize_catch E users (Some \<lparr>c_email = Some e, c_password = Some p\<rparr>) =
           (None, [ConsoleError ''Auth error:'' ''Invalid password'']) \<and>
         authorize_catch E users (Some \<lparr>c_email = Some e', c_password = Some p'\<rparr>) =
           (None, [ConsoleError ''Auth error:'' ''No user found'']) \<and>
         (falsy em \<or> falsy pw \<longrightarrow>
            authorize E users (Some \<lparr>c_email = em, c_password = pw\<rparr>) = Inl ''Invalid credentials'' \<and>
            authorize_catch E users (Some \<lparr>c_email = em, c_password = pw\<rparr>) =
              (None, [ConsoleError ''Auth error:'' ''Invalid credentials'']))"
proof -
  have f: "findOne_select_password E users e = Some d"
    using assms(1-4) by (rule findOne_select_password_stored)
  have n: "findOne_select_password E users e' = None"
    unfolding findOne_select_password_def using assms(11) by (rule find_absent)
  note w = authorize_try_wrong_password [OF f assms(5) assms(6) assms(7) assms(8)]
  note u = authorize_try_no_user [OF n assms(9) assms(10)]
  have c: "authorize E users (Some \<lparr>c_email = em, c_password = pw\<rparr>) = Inl ''Invalid credentials'' \<and>
           authorize_catch E users (Some \<lparr>c_email = em, c_password = pw\<rparr>) =
             (None, [ConsoleError ''Auth error:'' ''Invalid credentials''])"
    if "falsy em \<or> falsy pw"
    using authorize_try_falsy [OF that, of E users] by (simp add: authorize_catch_def)
  show ?thesis using w u c by (simp add: authorize_catch_def)
qed

lemma toLowerCase_nobody: "toLowerCase ''nobody@x.com'' = ''nobody@x.com''"
  by code_simp

theorem authorize_failures_witness:
  "authorize sample_env seeded_users (Some \<lparr>c_email = Some ''a@x.com'', c_password = Some ''wrong''\<rparr>) =
     Inl ''Invalid password'' \<and>
   authorize sample_env seeded_users (Some \<lparr>c_email = Some ''nobody@x.com'', c_password = Some ''wrong''\<rparr>) =
     Inl ''No user found'' \<and>
   authorize_catch sample_env seeded_users (Some \<lparr>c_email = Some ''a@x.com'', c_password = Some ''wrong''\<rparr>) =
     (None, [ConsoleError ''Auth error:'' ''Invalid password'']) \<and>
   authorize_catch sample_env seeded_users (Some \<lparr>c_email = Some ''nobody@x.com'', c_password = Some ''wrong''\<rparr>) =
     (None, [ConsoleError ''Auth error:'' ''No user found'']) \<and>
   falsy (Some []) \<and>
   authorize sample_env seeded_users (Some \<lparr>c_email = Some ''a@x.com'', c_password = Some []\<rparr>) =
     Inl ''Invalid credentials'' \<and>
   authorize_catch sample_env seeded_users (Some \<lparr>c_email = Some ''a@x.com'', c_password = Some []\<rparr>) =
     (None, [ConsoleError ''Auth error:'' ''Invalid credentials''])"
proof -
  have 1: "hd seeded_users \<in> set seeded_users" by (simp add: seeded_users_def)
  have 2: "distinct (map u_email seeded_users)" by (simp add: seeded_users_def)
  have 3: "u_email (hd seeded_users) = Some ''a@x.com''" by (simp add: seeded_users_def)
  have 5: "u_password (hd seeded_users) = Some ''$2a$10$secret1''" by (simp add: seeded_users_def)
  have 6: "''a@x.com'' \<noteq> []" and 7: "''wrong'' \<noteq> []" and 9: "''nobody@x.com'' \<noteq> []" by simp_all
  have 8: "\<not> bcrypt_compare sample_env ''wrong'' ''$2a$10$secret1''" by (simp add: sample_env_def)
  have 11: "\<forall>x \<in> set seeded_users. u_email x \<noteq> Some (cast_email sample_env ''nobody@x.com'')"
    by (simp add: seeded_users_def cast_email_def toLowerCase_nobody)
  have 12: "falsy (Some [])" by (simp add: falsy_def)
  from authorize_failures [OF 1 2 3 toLowerCase_sample_lower 5 6 7 8 9 7 11,
      where em = "Some ''a@x.com''" and pw = "Some []"]
  show ?thesis using 12 by simp
qed

text \<open>
  The claim C6 as it was put fails twice.  On the later variant, the wrong password for
  the stored user and an email nobody has give the caller the same value, \<^verbatim>\<open>null\<close>.  On
  the route file, the empty password, which is not the stored user's, gives the same
  error for the stored email and for an email nobody has.
\<close>

theorem authorize_catch_counterexample:
  "authorize_try sample_env seeded_users (Some \<lparr>c_email = Some ''a@x.com'', c_password = Some ''wrong''\<rparr>) =
     Inl ''Invalid password'' \<and>
   authorize_try sample_env seeded_users (Some \<lparr>c_email = Some ''nobody@x.com'', c_password = Some ''wrong''\<rparr>) =
     Inl ''No user found'' \<and>
   fst (authorize_catch sample_env seeded_users (Some \<lparr>c_email = Some ''a@x.com'', c_password = Some ''wrong''\<rparr>)) =
   fst (authorize_catch sample_env seeded_users (Some \<lparr>c_email = Some ''nobody@x.com'', c_password = Some ''wrong''\<rparr>)) \<and>
   \<not> bcrypt_compare sample_env [] ''$2a$10$secret1'' \<and>
   authorize sample_env seeded_users (Some \<lparr>c_email = Some ''a@x.com'', c_password = Some []\<rparr>) =
   authorize sample_env seeded_users (Some \<lparr>c_email = Some ''nobody@x.com'', c_password = Some []\<rparr>)"
proof -
  have f: "findOne_select_password sample_env seeded_users ''a@x.com'' = Some (hd seeded_users)"
    by (simp add: findOne_select_password_def cast_email_def seeded_users_def toLowerCase_sample_lower)
  have n: "findOne_select_password sample_env seeded_users ''nobody@x.com'' = None"
    by (simp add: findOne_select_password_def cast_email_def seeded_users_def toLowerCase_nobody)
  have 5: "u_password (hd seeded_users) = Some ''$2a$10$secret1''" by (simp add: seeded_users_def)
  have 8: "\<not> bcrypt_compare sample_env ''wrong'' ''$2a$10$secret1''" by (simp add: sample_env_def)
  have w: "authorize_try sample_env seeded_users (Some \<lparr>c_email = Some ''a@x.com'', c_password = Some ''wrong''\<rparr>) =
     Inl ''Invalid password''"
    by (rule authorize_try_wrong_password(2) [OF f 5 _ _ 8]) simp_all
  have u: "authorize_try sample_env seeded_users (Some \<lparr>c_email = Some ''nobody@x.com'', c_password = Some ''wrong''\<rparr>) =
     Inl ''No user found''"
    by (rule authorize_try_no_user(2) [OF n]) simp_all
  have b: "\<not> bcrypt_compare sample_env [] ''$2a$10$secret1''" by (simp add: sample_env_def)
  have k: "falsy (Some ''a@x.com'') \<or> falsy (Some [])" by (simp add: falsy_def)
  have k': "falsy (Some ''nobody@x.com'') \<or> falsy (Some [])" by (simp add: falsy_def)
  have r: "authorize sample_env seeded_users (Some \<lparr>c_email = Some ''a@x.com'', c_password = Some []\<rparr>) =
     authorize sample_env seeded_users (Some \<lparr>c_email = Some ''nobody@x.com'', c_password = Some []\<rparr>)"
    by (simp only: authorize_try_falsy(1) [OF k] authorize_try_falsy(1) [OF k'])
  show ?thesis using w u b r by (simp add: authorize_catch_def)
qed

lemma authorize_seeded_user:
  "authorize sample_env seeded_users (Some \<lparr>c_email = Some ''A@X.COM'', c_password = Some ''secret1''\<rparr>) =
     Inr \<lparr>a_id = ''65f0c0ffee'', a_email = Some ''a@x.com'', a_name = Some ''Alice'', a_role = ''citizen''\<rparr>"
  by (simp add: authorize_def cred_email_def cred_password_def falsy_def comparePassword_def
        findOne_select_password_def cast_email_def seeded_users_def sample_env_def
        toLowerCase_sample)


subsection \<open>Complaint submission\<close>

lemma handleSubmit_without_session:
  "handleSubmit None formData uploadedImages fetch =
     (ToastError ''Please login to submit a complaint'', None, formData, uploadedImages)"
  by (simp add: handleSubmit_def)

lemma handleSubmit_body:
  "handleSubmit sess formData uploadedImages fetch = (t, Some body, fd', imgs') \<Longrightarrow>
     body = payload_of formData uploadedImages \<and>
     d_status (draft_of body) = None \<and> d_author (draft_of body) = None"
  by (auto simp: handleSubmit_def draft_of_def complaint_payload.extend_def Let_def
           split: option.splits if_splits prod.splits)

text \<open>
  C1.  Under a session, a draft with the required fields is persisted as one new
  complaint whose status is \<^verbatim>\<open>pending\<close> and whose author is the user id of the session,
  whatever status and author the draft itself carries.
\<close>

theorem submit_sets_status_and_author:
  assumes "fd_title draft \<noteq> []" and "fd_type draft \<noteq> []" and "fd_description draft \<noteq> []"
    and "fd_address draft \<noteq> []" and "fd_mobile draft \<noteq> []"
  shows "\<exists>c. submit (Some s) (draft\<lparr>d_status := st, d_author := au\<rparr>) complaints =
               Inr (c, complaints @ [c]) \<and>
             k_status c = ''pending'' \<and> k_author c = s_id s"
  using assms by (simp add: submit_def Let_def)

theorem submit_sets_status_and_author_witness:
  "fd_title forged_draft \<noteq> [] \<and> fd_type forged_draft \<noteq> [] \<and> fd_description forged_draft \<noteq> [] \<and>
   fd_address forged_draft \<noteq> [] \<and> fd_mobile forged_draft \<noteq> [] \<and>
   d_status forged_draft = Some ''resolved'' \<and> d_author forged_draft = Some ''u999'' \<and>
   (\<exists>c. submit (Some sample_session) forged_draft [] = Inr (c, [c]) \<and>
        k_status c = ''pending'' \<and> k_author c = ''u1'')"
proof -
  have 1: "fd_title forged_draft \<noteq> []" and 2: "fd_type forged_draft \<noteq> []"
    and 3: "fd_description forged_draft \<noteq> []" and 4: "fd_address forged_draft \<noteq> []"
    and 5: "fd_mobile forged_draft \<noteq> []"
    by (simp_all add: forged_draft_def)
  have e: "forged_draft\<lparr>d_status := Some ''resolved'', d_author := Some ''u999''\<rparr> = forged_draft"
    by (simp add: forged_draft_def)
  from submit_sets_status_and_author
    [OF 1 2 3 4 5, where s = sample_session and st = "Some ''resolved''"
       and au = "Some ''u999''" and complaints = "[]"]
  show ?thesis using 1 2 3 4 5 e by (simp add: forged_draft_def sample_session_def)
qed

end
